theory Spec2Isabelle
  imports Complex_Main "HOL-Library.Sublist"
begin

section \<open>Scene graphs and loaded models\<close>

text \<open>
  The viewer works on the object the glTF loader returns: a scene graph and a list of
  animation clips. Of a node the code reads its \<open>type\<close> string, its optional geometry
  and its children; of a geometry it reads the \<open>count\<close> of the index buffer (when there
  is one) and the \<open>count\<close> of the \<open>position\<close> attribute (when there is one). JavaScript
  numbers are modelled as reals, counts as natural numbers.
\<close>

datatype geometry = Geometry (index: "nat option") (position: "nat option")

datatype object3D =
  Object3D (otype: string) (geometry: "geometry option") (children: "object3D list")

record animationClip =
  name :: string
  duration :: real

record gltf =
  scene :: "object3D option"
  animations :: "animationClip list option"

section \<open>modelValidation.js: counting meshes and triangles\<close>

text \<open>
  \<open>countMeshes\<close>: one for a node whose type is \<open>'Mesh'\<close>, plus the counts of the
  children, accumulated by the \<open>forEach\<close> loop.
\<close>

fun countMeshes :: "object3D \<Rightarrow> nat" where
  "countMeshes (Object3D ty g cs) =
     foldl (\<lambda>count child. count + countMeshes child)
       (if ty = ''Mesh'' then 1 else 0) cs"

text \<open>
  The first block of \<open>countTriangles\<close>: what a node adds to \<open>count\<close> before its children
  are visited. The division is JavaScript's, on numbers, so the value may be fractional.
\<close>

definition ownTriangles :: "string \<Rightarrow> geometry option \<Rightarrow> real" where
  "ownTriangles ty g =
     (if ty = ''Mesh'' then
        (case g of
           None \<Rightarrow> 0
         | Some geo \<Rightarrow>
             (case index geo of
                Some n \<Rightarrow> real n / 3
              | None \<Rightarrow> (case position geo of Some n \<Rightarrow> real n / 3 | None \<Rightarrow> 0)))
      else 0)"

text \<open>
  \<open>countTriangles\<close>: the node's own share, plus the (already floored) results of the
  children, and \<open>Math.floor\<close> of the total on return.
\<close>

fun countTriangles :: "object3D \<Rightarrow> int" where
  "countTriangles (Object3D ty g cs) =
     \<lfloor>foldl (\<lambda>count child. count + real_of_int (countTriangles child))
        (ownTriangles ty g) cs\<rfloor>"

section \<open>modelValidation.js: complexity analysis\<close>

record complexityInfo =
  complexity :: string
  meshCount :: nat
  triangleCount :: int
  textureCount :: "nat option"
  animationCount :: nat
  hasAnimations :: "bool option"

definition analyzeModelComplexity :: "gltf option \<Rightarrow> complexityInfo" where
  "analyzeModelComplexity model =
     (case model of
        None \<Rightarrow>
          \<lparr>complexity = ''unknown'', meshCount = 0, triangleCount = 0,
           textureCount = Some 0, animationCount = 0, hasAnimations = None\<rparr>
      | Some m \<Rightarrow>
          (case scene m of
             None \<Rightarrow>
               \<lparr>complexity = ''unknown'', meshCount = 0, triangleCount = 0,
                textureCount = Some 0, animationCount = 0, hasAnimations = None\<rparr>
           | Some sc \<Rightarrow>
               (let meshCount = countMeshes sc;
                    triangleCount = countTriangles sc;
                    animationCount = (case animations m of Some as \<Rightarrow> length as | None \<Rightarrow> 0);
                    complexity =
                      (if triangleCount > 50000 \<or> meshCount > 50 then ''high''
                       else if triangleCount > 10000 \<or> meshCount > 20 then ''medium''
                       else ''low'')
                in \<lparr>complexity = complexity, meshCount = meshCount,
                    triangleCount = triangleCount, textureCount = None,
                    animationCount = animationCount,
                    hasAnimations = Some (animationCount > 0)\<rparr>)))"

section \<open>modelValidation.js: validating a loaded model\<close>

text \<open>
  The validators return plain objects; one record holds their fields, a field an object
  does not have being \<open>None\<close>. \<open>rtype\<close> is the field \<open>type\<close>.
\<close>

record validationResult =
  isValid :: bool
  error :: "string option"
  rtype :: "string option"
  v_meshCount :: "nat option"
  v_hasAnimations :: "bool option"
  v_animationCount :: "nat option"

definition invalid :: "string \<Rightarrow> string \<Rightarrow> validationResult" where
  "invalid msg ty =
     \<lparr>isValid = False, error = Some msg, rtype = Some ty, v_meshCount = None,
      v_hasAnimations = None, v_animationCount = None\<rparr>"

definition validateLoadedModel :: "gltf option \<Rightarrow> validationResult" where
  "validateLoadedModel model =
     (case model of
        None \<Rightarrow> invalid ''Model object is null or undefined'' ''null_model''
      | Some m \<Rightarrow>
          (case scene m of
             None \<Rightarrow> invalid ''Model missing scene object'' ''missing_scene''
           | Some sc \<Rightarrow>
               if length (children sc) = 0
               then invalid ''Model scene has no children (empty model)'' ''empty_scene''
               else
                 \<lparr>isValid = True, error = None, rtype = None,
                  v_meshCount = Some (countMeshes sc),
                  v_hasAnimations =
                    (case animations m of Some as \<Rightarrow> Some (length as > 0) | None \<Rightarrow> None),
                  v_animationCount =
                    Some (case animations m of Some as \<Rightarrow> length as | None \<Rightarrow> 0)\<rparr>))"

section \<open>modelValidation.js: validating a model URL\<close>

text \<open>
  The argument of \<open>validateModelUrl\<close>: \<open>null\<close> or \<open>undefined\<close>, a string, or a truthy
  value that is not a string. The empty string is falsy.
\<close>

datatype jsUrl = Absent | Str string | NonString

text \<open>
  \<open>String.prototype.toLowerCase\<close> on the ASCII letters, and \<open>String.prototype.includes\<close>
  (\<open>str_includes s sub\<close> is \<open>s.includes(sub)\<close>):
  the argument occurs at some position of the string.
\<close>

definition lowerChar :: "char \<Rightarrow> char" where
  "lowerChar c =
     (let n = (of_char c :: nat) in if 65 \<le> n \<and> n \<le> 90 then char_of (n + 32) else c)"

definition toLowerCase :: "string \<Rightarrow> string" where
  "toLowerCase s = map lowerChar s"

fun str_includes :: "string \<Rightarrow> string \<Rightarrow> bool" where
  "str_includes [] sub = (sub = [])"
| "str_includes (c # cs) sub = (prefix sub (c # cs) \<or> str_includes cs sub)"

definition getModelType :: "string option \<Rightarrow> string" where
  "getModelType url =
     (case url of
        None \<Rightarrow> ''unknown''
      | Some u \<Rightarrow>
          if u = [] then ''unknown''
          else
            (let lowerUrl = toLowerCase u
             in if str_includes lowerUrl ''.glb'' then ''glb''
                else if str_includes lowerUrl ''.gltf'' then ''gltf''
                else ''unknown''))"

text \<open>
  \<open>validateModelUrl\<close>. The platform's \<open>new URL(url)\<close> is a parameter: \<open>parsesAsUrl u\<close>
  says that the constructor accepts \<open>u\<close> (it throws otherwise).
\<close>

definition validateModelUrl :: "(string \<Rightarrow> bool) \<Rightarrow> jsUrl \<Rightarrow> validationResult" where
  "validateModelUrl parsesAsUrl url =
     (case url of
        Absent \<Rightarrow> invalid ''Model URL is required'' ''missing_url''
      | NonString \<Rightarrow> invalid ''Model URL must be a string'' ''invalid_type''
      | Str u \<Rightarrow>
          if u = [] then invalid ''Model URL is required'' ''missing_url''
          else
            (let supportedExtensions = [''.glb'', ''.gltf''];
                 hasValidExtension =
                   list_ex (\<lambda>ext. str_includes (toLowerCase u) ext) supportedExtensions
             in if \<not> hasValidExtension
                then invalid ''Model must be one of these formats: .glb, .gltf''
                       ''unsupported_format''
                else if \<not> parsesAsUrl u then invalid ''Invalid URL format'' ''invalid_url''
                else
                  \<lparr>isValid = True, error = None, rtype = Some (getModelType (Some u)),
                   v_meshCount = None, v_hasAnimations = None, v_animationCount = None\<rparr>))"

section \<open>AnimatedModel.js: the load effect\<close>

text \<open>
  What the effect run after loading reports: an error (\<open>setModelError\<close>, \<open>onError\<close>),
  a loaded model (\<open>setModelLoaded(true)\<close>, \<open>onLoad\<close> with the complexity analysis), or
  nothing while there is no model yet. Before it reports a loaded model it also fits
  the scene (\<open>fitScene\<close> below) and sets shadow and material flags on the meshes, which
  is not modelled.
\<close>

datatype loadOutcome = Failed "string option" | Loaded complexityInfo | Pending

definition loadEffect :: "(string \<Rightarrow> bool) \<Rightarrow> jsUrl \<Rightarrow> gltf option \<Rightarrow> loadOutcome" where
  "loadEffect parsesAsUrl sanitizedUrl model =
     (let urlValidation = validateModelUrl parsesAsUrl sanitizedUrl
      in if \<not> isValid urlValidation then Failed (error urlValidation)
         else
           (case model of
              None \<Rightarrow> Pending
            | Some g \<Rightarrow>
                (let modelValidation = validateLoadedModel (Some g)
                 in if \<not> isValid modelValidation then Failed (error modelValidation)
                    else Loaded (analyzeModelComplexity (Some g)))))"

section \<open>Bounding boxes\<close>

text \<open>
  Both normalisations start from \<open>new THREE.Box3().setFromObject(scene)\<close> and read the box
  through \<open>getCenter\<close> and \<open>getSize\<close> only. The box is computed by the rendering library,
  so the two vectors it hands back are the input here: \<open>boxCenter\<close> and \<open>boxSize\<close>. A
  model whose geometry is the single point \<open>p\<close> has centre \<open>p\<close> and size \<open>(0, 0, 0)\<close>.
\<close>

datatype vector3 = Vector3 (vx: real) (vy: real) (vz: real)

record bounds =
  boxCenter :: vector3
  boxSize :: vector3

text \<open>\<open>Math.max(size.x, size.y, size.z)\<close>.\<close>

definition maxDimension :: "vector3 \<Rightarrow> real" where
  "maxDimension sz = max (vx sz) (max (vy sz) (vz sz))"

section \<open>ProductViewer: state, normalizeModel, handleScaleChange\<close>

text \<open>
  The result object of \<open>normalizeModel\<close> (the box itself is left out: it is the input).
\<close>

record normalizationData =
  originalSize :: vector3
  center :: vector3
  nd_normalizedScale :: real
  centeredPosition :: "real \<times> real \<times> real"

text \<open>The \<open>useState\<close> cells of the viewer that the handlers below read or write.\<close>

record viewerState =
  isLoading :: bool
  loadError :: "string option"
  modelInfo :: "(complexityInfo \<times> normalizationData) option"
  modelScale :: real
  modelPosition :: "real \<times> real \<times> real"
  normalizedScale :: real
  availableAnimations :: "string list"
  currentAnimation :: "string option"
  playAnimations :: bool

text \<open>The initial values given to \<open>useState\<close>.\<close>

definition initialState :: viewerState where
  "initialState =
     \<lparr>isLoading = True, loadError = None, modelInfo = None, modelScale = 1,
      modelPosition = (0, 0, 0), normalizedScale = 1, availableAnimations = [],
      currentAnimation = None, playAnimations = False\<rparr>"

text \<open>
  \<open>normalizeModel\<close>, with the prop \<open>targetSize\<close> it closes over as its first argument. It
  returns its result object and the state after its three \<open>set...\<close> calls.
\<close>

definition normalizeModel ::
  "real \<Rightarrow> bounds \<Rightarrow> viewerState \<Rightarrow> normalizationData \<times> viewerState" where
  "normalizeModel targetSize box s =
     (let center = boxCenter box;
          size = boxSize box;
          maxDim = maxDimension size;
          scale = (if maxDim > 0 then targetSize / maxDim else 1);
          centeredPosition = (- vx center * scale, - vy center * scale, - vz center * scale)
      in (\<lparr>originalSize = size, center = center, nd_normalizedScale = scale,
           centeredPosition = centeredPosition\<rparr>,
          s\<lparr>normalizedScale := scale, modelPosition := centeredPosition,
            modelScale := scale\<rparr>))"

text \<open>\<open>handleScaleChange\<close>: the scale slider's value, relative to the normalised scale.\<close>

definition handleScaleChange :: "real \<Rightarrow> viewerState \<Rightarrow> viewerState" where
  "handleScaleChange scale s = s\<lparr>modelScale := normalizedScale s * scale\<rparr>"

section \<open>AnimatedModel.js: centring and fitting the scene\<close>

text \<open>The position and the (uniform) scale of \<open>gltf.scene\<close>, which the effect mutates.\<close>

record sceneTransform =
  scenePosition :: vector3
  sceneScale :: real

text \<open>
  The block under \<open>if (enableBounds && gltf.scene)\<close>, with the prop \<open>scale\<close>: the position
  is always set to the negated centre, the scale only when the largest extent is positive.
\<close>

definition fitScene :: "bool \<Rightarrow> real \<Rightarrow> bounds \<Rightarrow> sceneTransform \<Rightarrow> sceneTransform" where
  "fitScene enableBounds scale box tr =
     (if enableBounds then
        (let center = boxCenter box;
             size = boxSize box;
             tr1 = tr\<lparr>scenePosition := Vector3 (- vx center) (- vy center) (- vz center)\<rparr>;
             maxDim = maxDimension size
         in if maxDim > 0
            then (let targetSize = 3.5; scaleFactor = (targetSize / maxDim) * scale
                  in tr1\<lparr>sceneScale := scaleFactor\<rparr>)
            else tr1)
      else tr)"

section \<open>The box of the live scene\<close>





section \<open>ProductViewer: handleModelLoad and handleAnimationChange\<close>

text \<open>
  \<open>product?.animations\<close>: \<open>None\<close> when the product or its \<open>animations\<close> field is missing.
  A missing \<open>defaultAnimation\<close> is \<open>None\<close>, a missing \<open>autoPlay\<close> is \<open>False\<close>.
\<close>

record productAnimations =
  available :: "string list"
  defaultAnimation :: "string option"
  autoPlay :: bool

text \<open>A string, \<open>null\<close> or \<open>undefined\<close> used as a condition: true for a non-empty string.\<close>

definition truthy :: "string option \<Rightarrow> bool" where
  "truthy v = (case v of None \<Rightarrow> False | Some str \<Rightarrow> str \<noteq> [])"

text \<open>\<open>product?.animations?.autoPlay\<close> and \<open>product.animations.defaultAnimation\<close>.\<close>

definition declaredAutoPlay :: "productAnimations option \<Rightarrow> bool" where
  "declaredAutoPlay productAnims = (case productAnims of None \<Rightarrow> False | Some pa \<Rightarrow> autoPlay pa)"

definition declaredDefault :: "productAnimations option \<Rightarrow> string option" where
  "declaredDefault productAnims =
     (case productAnims of None \<Rightarrow> None | Some pa \<Rightarrow> defaultAnimation pa)"

text \<open>
  \<open>gltf.animations.map(clip => clip.name).filter(name => name)\<close>: the clip names in loader
  order, without the empty ones.
\<close>

definition animNames :: "animationClip list \<Rightarrow> string list" where
  "animNames clips = filter (\<lambda>n. n \<noteq> []) (map name clips)"

text \<open>
  \<open>handleModelLoad\<close>. When it selects no clip it writes neither \<open>currentAnimation\<close> nor
  \<open>playAnimations\<close>.
\<close>

definition handleModelLoad ::
  "real \<Rightarrow> productAnimations option \<Rightarrow> gltf \<Rightarrow> bounds \<Rightarrow> complexityInfo \<Rightarrow>
   viewerState \<Rightarrow> viewerState" where
  "handleModelLoad targetSize productAnims g box cplx s =
     (let s1 = s\<lparr>isLoading := False, loadError := None\<rparr>;
          (normalizationData, s2) = normalizeModel targetSize box s1;
          s3 = s2\<lparr>modelInfo := Some (cplx, normalizationData)\<rparr>;
          clips = (case animations g of None \<Rightarrow> [] | Some cl \<Rightarrow> cl)
      in if length clips > 0 then
           (let names = animNames clips;
                s4 = s3\<lparr>availableAnimations := names\<rparr>
            in if declaredAutoPlay productAnims then
                 (if (case declaredDefault productAnims of
                        None \<Rightarrow> False
                      | Some d \<Rightarrow> d \<noteq> [] \<and> d \<in> set names)
                  then s4\<lparr>currentAnimation := declaredDefault productAnims,
                          playAnimations := True\<rparr>
                  else
                    (case names of
                       [] \<Rightarrow> s4
                     | first # _ \<Rightarrow>
                         s4\<lparr>currentAnimation := Some first, playAnimations := True\<rparr>))
               else s4)
         else s3\<lparr>availableAnimations := []\<rparr>)"

definition handleAnimationChange :: "string option \<Rightarrow> viewerState \<Rightarrow> viewerState" where
  "handleAnimationChange animationName s =
     (let s1 = s\<lparr>currentAnimation := animationName\<rparr>
      in if truthy animationName then s1\<lparr>playAnimations := True\<rparr> else s1)"

section \<open>AnimationControls: stepping through the clips\<close>

text \<open>
  \<open>Array.prototype.indexOf\<close>: the first index holding the value, or \<open>-1\<close>. Reading an
  array outside its range gives \<open>undefined\<close>, here \<open>None\<close>.
\<close>

fun indexOf :: "'a list \<Rightarrow> 'a \<Rightarrow> int" where
  "indexOf [] v = - 1"
| "indexOf (a # as) v =
     (if a = v then 0 else (let i = indexOf as v in if i < 0 then - 1 else i + 1))"

definition elemAt :: "'a list \<Rightarrow> int \<Rightarrow> 'a option" where
  "elemAt xs i = (if 0 \<le> i \<and> i < int (length xs) then Some (xs ! nat i) else None)"

text \<open>
  The selection is a clip name or \<open>null\<close>; the array holds names only, so \<open>null\<close> is never
  found. Both handlers return the new value of \<open>selectedAnimation\<close>, which is also what
  they pass to \<open>onAnimationChange\<close>; a handler that returns early leaves it as it was.
\<close>

definition handlePrevious :: "string list \<Rightarrow> string option \<Rightarrow> string option" where
  "handlePrevious anims selectedAnimation =
     (if length anims = 0 then selectedAnimation
      else
        (let currentIndex = indexOf (map Some anims) selectedAnimation;
             prevIndex = (if currentIndex \<le> 0 then int (length anims) - 1 else currentIndex - 1);
             prevAnimation = elemAt anims prevIndex
         in prevAnimation))"

definition handleNext :: "string list \<Rightarrow> string option \<Rightarrow> string option" where
  "handleNext anims selectedAnimation =
     (if length anims = 0 then selectedAnimation
      else
        (let currentIndex = indexOf (map Some anims) selectedAnimation;
             nextIndex = (if currentIndex \<ge> int (length anims) - 1 then 0 else currentIndex + 1);
             nextAnimation = elemAt anims nextIndex
         in nextAnimation))"

section \<open>AnimatedModel.js: the playback effect\<close>

text \<open>
  \<open>useAnimations\<close> gives \<open>names\<close>, the clip names in loader order, and \<open>actions\<close>, a plain
  object on which it defines one property per clip name. Reading \<open>actions[n]\<close> therefore
  gives the clip's action when \<open>n\<close> is a clip name, a value that is truthy but no action
  when \<open>n\<close> is a property every object inherits (\<open>toString\<close>, \<open>constructor\<close>, ...), and
  \<open>undefined\<close> otherwise.
\<close>

datatype actionSlot = NoAction | ClipAction | InheritedValue

text \<open>
  Which names a plain object inherits with a truthy value is the platform's matter and
  a parameter here, \<open>inherited\<close>. \<open>actionsOf\<close> is the object of \<open>useAnimations\<close> once the
  model's group is mounted; a clip's own property hides an inherited one.
\<close>

definition actionsOf :: "(string \<Rightarrow> bool) \<Rightarrow> string list \<Rightarrow> string \<Rightarrow> actionSlot" where
  "actionsOf inherited names n =
     (if n \<in> set names then ClipAction
      else if inherited n then InheritedValue
      else NoAction)"

text \<open>The string-named properties of \<open>Object.prototype\<close> in a browser; all are truthy.\<close>

definition objectPrototypeNames :: "string list" where
  "objectPrototypeNames =
     [''constructor'', ''__defineGetter__'', ''__defineSetter__'', ''hasOwnProperty'',
      ''__lookupGetter__'', ''__lookupSetter__'', ''isPrototypeOf'',
      ''propertyIsEnumerable'', ''toString'', ''valueOf'', ''__proto__'',
      ''toLocaleString'']"

definition inheritedName :: "string \<Rightarrow> bool" where
  "inheritedName n = (n \<in> set objectPrototypeNames)"

text \<open>The condition \<open>v && actions[v]\<close>.\<close>

definition playable :: "(string \<Rightarrow> actionSlot) \<Rightarrow> string option \<Rightarrow> bool" where
  "playable actions v =
     (case v of None \<Rightarrow> False | Some n \<Rightarrow> n \<noteq> [] \<and> actions n \<noteq> NoAction)"

text \<open>The \<open>for\<close> loop over \<open>commonNames\<close>: the first candidate that passes the condition.\<close>

fun firstPlayable :: "(string \<Rightarrow> actionSlot) \<Rightarrow> string option list \<Rightarrow> string option" where
  "firstPlayable actions [] = None"
| "firstPlayable actions (c # cs) =
     (if playable actions c then c else firstPlayable actions cs)"

text \<open>
  The effect stops every action and then starts at most one; the result is the clip it
  starts. With no clips it returns before doing anything. \<open>action.reset()\<close> on a value
  that is no action throws a \<open>TypeError\<close>, and then nothing has been started.
\<close>

datatype jsError = TypeError

definition playbackEffect ::
  "(string \<Rightarrow> actionSlot) \<Rightarrow> string list \<Rightarrow> string option \<Rightarrow> bool \<Rightarrow> jsError + string option"
  where
  "playbackEffect actions names currentAnim play =
     (if length names = 0 then Inr None
      else if play \<and> length names > 0 then
        (let animationToPlay =
               (if playable actions currentAnim then currentAnim
                else
                  (let commonNames =
                         [Some ''idle'', Some ''animation'', Some ''action'', Some ''default'',
                          elemAt names 0]
                   in firstPlayable actions commonNames))
         in if playable actions animationToPlay then
              (case animationToPlay of
                 None \<Rightarrow> Inr None
               | Some n \<Rightarrow>
                   (case actions n of
                      ClipAction \<Rightarrow> Inr (Some n)
                    | InheritedValue \<Rightarrow> Inl TypeError
                    | NoAction \<Rightarrow> Inr None))
            else Inr None)
      else Inr None)"

section \<open>The specification's view of the counts\<close>

text \<open>
  These three definitions follow the specification's words, not the code: the nodes of
  a scene graph, the mesh-typed ones among them, and the triangle count of one mesh (the
  index count over three when there is an index buffer, else the position count over
  three, rounded down; a mesh with neither counts nothing).
\<close>

fun nodes :: "object3D \<Rightarrow> object3D list" where
  "nodes (Object3D ty g cs) = Object3D ty g cs # concat (map nodes cs)"

definition isMesh :: "object3D \<Rightarrow> bool" where
  "isMesh n = (otype n = ''Mesh'')"

definition meshTriangles :: "object3D \<Rightarrow> nat" where
  "meshTriangles n =
     (case geometry n of
        None \<Rightarrow> 0
      | Some geo \<Rightarrow>
          (case index geo of
             Some k \<Rightarrow> k div 3
           | None \<Rightarrow> (case position geo of Some k \<Rightarrow> k div 3 | None \<Rightarrow> 0)))"

text \<open>
  An example scene: a group holding one indexed mesh per list entry, the entry being
  the count of the mesh's index buffer.
\<close>

definition sceneOfMeshes :: "nat list \<Rightarrow> object3D" where
  "sceneOfMeshes ks =
     Object3D ''Group'' None
       (map (\<lambda>k. Object3D ''Mesh'' (Some (Geometry (Some k) None)) []) ks)"

definition modelOfMeshes :: "nat list \<Rightarrow> gltf" where
  "modelOfMeshes ks = \<lparr>scene = Some (sceneOfMeshes ks), animations = None\<rparr>"

text \<open>
  Two example boxes with centre \<open>(1, 2, 3)\<close>: one of size \<open>(6, 4, 2)\<close>, and the box of
  a single point.
\<close>

definition offCentreBox :: bounds where
  "offCentreBox = \<lparr>boxCenter = Vector3 1 2 3, boxSize = Vector3 6 4 2\<rparr>"

definition pointBox :: bounds where
  "pointBox = \<lparr>boxCenter = Vector3 1 2 3, boxSize = Vector3 0 0 0\<rparr>"


text \<open>
  An example model with clips of the given names, and the animation metadata of a
  product that declares a default clip and an auto-play flag.
\<close>

definition modelOfClips :: "string list \<Rightarrow> gltf" where
  "modelOfClips ns =
     \<lparr>scene = None, animations = Some (map (\<lambda>n. \<lparr>name = n, duration = 1\<rparr>) ns)\<rparr>"

definition declared :: "string \<Rightarrow> bool \<Rightarrow> productAnimations option" where
  "declared d a = Some \<lparr>available = [], defaultAnimation = Some d, autoPlay = a\<rparr>"

section \<open>Mesh and triangle counts\<close>

lemma foldl_add_sum_list:
  "foldl (\<lambda>count child. count + f child) s cs = s + sum_list (map f cs)"
  for s :: "'a::monoid_add"
  by (induction cs arbitrary: s) (simp_all add: add.assoc)

lemma isMesh_Object3D [simp]: "isMesh (Object3D ty g cs) = (ty = ''Mesh'')"
  by (simp add: isMesh_def)

lemma floor_third: "\<lfloor>real k / 3\<rfloor> = int (k div 3)"
  using floor_divide_of_nat_eq[of k 3, where ?'a = real] by simp

lemma countMeshes_nodes: "countMeshes t = length (filter isMesh (nodes t))"
proof (induction t)
  case (Object3D ty g cs)
  have "sum_list (map countMeshes cs)
        = sum_list (map (\<lambda>c. length (filter isMesh (nodes c))) cs)"
    using Object3D.IH by (intro arg_cong[where f=sum_list] map_cong) auto
  also have "\<dots> = length (filter isMesh (concat (map nodes cs)))"
    by (induction cs) simp_all
  finally show ?case
    by (simp add: foldl_add_sum_list)
qed

text \<open>
  Flooring a node's own share together with an integer (the children's total) floors
  the share alone: this is why the per-node \<open>Math.floor\<close> amounts to rounding each mesh
  down on its own.
\<close>

lemma floor_ownTriangles:
  "\<lfloor>ownTriangles ty g + real_of_int z\<rfloor> =
     (if ty = ''Mesh'' then int (meshTriangles (Object3D ty g cs)) else 0) + z"
  by (simp add: ownTriangles_def meshTriangles_def floor_third split: option.splits)

lemma countTriangles_nodes:
  "countTriangles t = (\<Sum>n\<leftarrow>filter isMesh (nodes t). int (meshTriangles n))"
proof (induction t)
  case (Object3D ty g cs)
  have "sum_list (map (\<lambda>c. real_of_int (countTriangles c)) cs)
        = real_of_int (sum_list (map countTriangles cs))"
    by (induction cs) simp_all
  moreover have "sum_list (map countTriangles cs)
        = sum_list (map (\<lambda>c. \<Sum>n\<leftarrow>filter isMesh (nodes c). int (meshTriangles n)) cs)"
    using Object3D.IH by (intro arg_cong[where f=sum_list] map_cong) auto
  moreover have "\<dots> = (\<Sum>n\<leftarrow>filter isMesh (concat (map nodes cs)). int (meshTriangles n))"
    by (induction cs) simp_all
  ultimately show ?case
    by (simp add: foldl_add_sum_list floor_ownTriangles[where cs=cs])
qed

text \<open>
  C7. For every scene graph, \<open>countTriangles\<close> is the sum, over the mesh-typed nodes of
  the graph, of the mesh's triangle count (index count over three when the geometry has
  an index buffer, else position count over three, each rounded down; nothing for a mesh
  without geometry), and \<open>countMeshes\<close> is the number of mesh-typed nodes.
\<close>

theorem countTriangles_countMeshes_spec:
  "countTriangles t = (\<Sum>n\<leftarrow>filter isMesh (nodes t). int (meshTriangles n))
   \<and> countMeshes t = length (filter isMesh (nodes t))"
  by (simp add: countTriangles_nodes[symmetric] countMeshes_nodes[symmetric])

section \<open>Complexity tiers\<close>

text \<open>
  C6. For a model with a scene, the analyzer reports the counts of \<open>countTriangles\<close> and
  \<open>countMeshes\<close> and the tier \<open>high\<close> when the triangle count exceeds 50000 or the mesh
  count exceeds 50, else \<open>medium\<close> when the triangle count exceeds 10000 or the mesh count
  exceeds 20, else \<open>low\<close>. So 60000 triangles in 10 meshes are \<open>high\<close>, 5000 triangles in
  5 meshes are \<open>low\<close>, and 10001 triangles are \<open>medium\<close> (in at most 50 meshes: more
  meshes make any model \<open>high\<close>).
\<close>

theorem analyzeModelComplexity_tiers:
  assumes "scene m = Some sc" and "r = analyzeModelComplexity (Some m)"
  shows "triangleCount r = countTriangles sc \<and> meshCount r = countMeshes sc
     \<and> complexity r =
         (if triangleCount r > 50000 \<or> meshCount r > 50 then ''high''
          else if triangleCount r > 10000 \<or> meshCount r > 20 then ''medium''
          else ''low'')
     \<and> (triangleCount r = 60000 \<and> meshCount r = 10 \<longrightarrow> complexity r = ''high'')
     \<and> (triangleCount r = 5000 \<and> meshCount r = 5 \<longrightarrow> complexity r = ''low'')
     \<and> (triangleCount r = 10001 \<and> meshCount r \<le> 50 \<longrightarrow> complexity r = ''medium'')"
  using assms by (simp add: analyzeModelComplexity_def Let_def)

theorem analyzeModelComplexity_tiers_witness:
  "scene (modelOfMeshes [180000, 0, 0, 0, 0, 0, 0, 0, 0, 0])
     = Some (sceneOfMeshes [180000, 0, 0, 0, 0, 0, 0, 0, 0, 0])
   \<and> triangleCount (analyzeModelComplexity
        (Some (modelOfMeshes [180000, 0, 0, 0, 0, 0, 0, 0, 0, 0]))) = 60000
   \<and> meshCount (analyzeModelComplexity
        (Some (modelOfMeshes [180000, 0, 0, 0, 0, 0, 0, 0, 0, 0]))) = 10
   \<and> complexity (analyzeModelComplexity
        (Some (modelOfMeshes [180000, 0, 0, 0, 0, 0, 0, 0, 0, 0]))) = ''high''
   \<and> triangleCount (analyzeModelComplexity (Some (modelOfMeshes [15000, 0, 0, 0, 0]))) = 5000
   \<and> meshCount (analyzeModelComplexity (Some (modelOfMeshes [15000, 0, 0, 0, 0]))) = 5
   \<and> complexity (analyzeModelComplexity (Some (modelOfMeshes [15000, 0, 0, 0, 0]))) = ''low''
   \<and> triangleCount (analyzeModelComplexity (Some (modelOfMeshes [30004]))) = 10001
   \<and> meshCount (analyzeModelComplexity (Some (modelOfMeshes [30004]))) = 1
   \<and> complexity (analyzeModelComplexity (Some (modelOfMeshes [30004]))) = ''medium''"
  using
    analyzeModelComplexity_tiers[of "modelOfMeshes [180000, 0, 0, 0, 0, 0, 0, 0, 0, 0]"
      "sceneOfMeshes [180000, 0, 0, 0, 0, 0, 0, 0, 0, 0]", OF _ refl]
    analyzeModelComplexity_tiers[of "modelOfMeshes [15000, 0, 0, 0, 0]"
      "sceneOfMeshes [15000, 0, 0, 0, 0]", OF _ refl]
    analyzeModelComplexity_tiers[of "modelOfMeshes [30004]" "sceneOfMeshes [30004]", OF _ refl]
  by (simp add: modelOfMeshes_def sceneOfMeshes_def ownTriangles_def)

section \<open>Validation of a loaded model\<close>

text \<open>
  C9. For a model with a scene, validation succeeds exactly when the scene has at least
  one child. A scene without children is rejected with the error of type
  \<open>empty_scene\<close>, and the load effect never reports such a model as loaded, whatever
  the URL.
\<close>

theorem validateLoadedModel_children:
  assumes "scene m = Some sc"
  shows "isValid (validateLoadedModel (Some m)) = (children sc \<noteq> [])
     \<and> (children sc = [] \<longrightarrow>
          rtype (validateLoadedModel (Some m)) = Some ''empty_scene''
          \<and> error (validateLoadedModel (Some m)) = Some ''Model scene has no children (empty model)''
          \<and> (\<forall>parsesAsUrl url c. loadEffect parsesAsUrl url (Some m) \<noteq> Loaded c))"
  using assms by (simp add: validateLoadedModel_def invalid_def loadEffect_def Let_def)

theorem validateLoadedModel_children_witness:
  "scene (modelOfMeshes []) = Some (sceneOfMeshes [])
   \<and> children (sceneOfMeshes []) = []
   \<and> \<not> isValid (validateLoadedModel (Some (modelOfMeshes [])))
   \<and> rtype (validateLoadedModel (Some (modelOfMeshes []))) = Some ''empty_scene''
   \<and> loadEffect (\<lambda>u. True) (Str ''http://a.b/m.glb'') (Some (modelOfMeshes []))
       = Failed (Some ''Model scene has no children (empty model)'')
   \<and> scene (modelOfMeshes [3]) = Some (sceneOfMeshes [3])
   \<and> children (sceneOfMeshes [3]) \<noteq> []
   \<and> isValid (validateLoadedModel (Some (modelOfMeshes [3])))"
  using validateLoadedModel_children[of "modelOfMeshes []" "sceneOfMeshes []"]
    validateLoadedModel_children[of "modelOfMeshes [3]" "sceneOfMeshes [3]"]
  by (simp add: modelOfMeshes_def sceneOfMeshes_def loadEffect_def validateModelUrl_def
      validateLoadedModel_def invalid_def toLowerCase_def lowerChar_def Let_def)

section \<open>Validation of a model URL\<close>

lemma str_includes_sublist: "str_includes s sub = sublist sub s"
  by (induction s) (simp_all add: sublist_Cons_right)

text \<open>
  C10. A URL string is valid exactly when it is non-empty, its lower-cased form contains
  \<open>.glb\<close> or \<open>.gltf\<close> at any position (not only as its extension), and the platform
  parses it as a URL; and the type reported for a valid URL is \<open>glb\<close> whenever
  \<open>.glb\<close> occurs anywhere in it.
\<close>

theorem validateModelUrl_substring:
  "isValid (validateModelUrl parsesAsUrl (Str u)) =
     (u \<noteq> [] \<and> (sublist ''.glb'' (toLowerCase u) \<or> sublist ''.gltf'' (toLowerCase u))
      \<and> parsesAsUrl u)
   \<and> (isValid (validateModelUrl parsesAsUrl (Str u)) \<and> sublist ''.glb'' (toLowerCase u) \<longrightarrow>
        rtype (validateModelUrl parsesAsUrl (Str u)) = Some ''glb'')"
  by (auto simp add: validateModelUrl_def invalid_def getModelType_def Let_def
      str_includes_sublist)

theorem validateModelUrl_substring_witness:
  "sublist ''.glb'' (toLowerCase ''http://a.b/m.gltf?v=.GLB'')
   \<and> isValid (validateModelUrl (\<lambda>u. True) (Str ''http://a.b/m.gltf?v=.GLB''))
   \<and> rtype (validateModelUrl (\<lambda>u. True) (Str ''http://a.b/m.gltf?v=.GLB'')) = Some ''glb''
   \<and> isValid (validateModelUrl (\<lambda>u. True) (Str ''http://a.b/x.glb/readme.txt''))"
proof -
  have lower1: "toLowerCase ''http://a.b/m.gltf?v=.GLB'' = ''http://a.b/m.gltf?v=.glb''"
    by code_simp
  have lower2: "toLowerCase ''http://a.b/x.glb/readme.txt'' = ''http://a.b/x.glb/readme.txt''"
    by code_simp
  have sub1: "sublist ''.glb'' ''http://a.b/m.gltf?v=.glb''"
    by code_simp
  have sub2: "sublist ''.glb'' ''http://a.b/x.glb/readme.txt''"
    by code_simp
  show ?thesis
    using validateModelUrl_substring[of "\<lambda>u. True" "''http://a.b/m.gltf?v=.GLB''"]
      validateModelUrl_substring[of "\<lambda>u. True" "''http://a.b/x.glb/readme.txt''"]
    by (simp add: lower1 lower2 sub1 sub2)
qed

section \<open>Normalisation\<close>

text \<open>
  The arithmetic is that of the real numbers; rounding, overflow and \<open>NaN\<close> of the
  JavaScript numbers are not modelled.
\<close>

text \<open>
  C1, as stated, fails. For the box of size \<open>(6, 4, 2)\<close> centred at \<open>(1, 2, 3)\<close>, target
  size 3 and multiplier 2, the viewer's scale is \<open>(3 / 6) * 2\<close> as the claim says, but
  the translation is not the negated centre times that scale: the multiplier reaches the
  scale only. The same holds of the fit of \<open>AnimatedModel\<close> (whose target size is 3.5):
  its scale follows the formula, its translation is the negated centre, unscaled.
\<close>

theorem normalize_multiplier_counterexample:
  "maxDimension (boxSize offCentreBox) > 0
   \<and> modelScale (handleScaleChange 2 (snd (normalizeModel 3 offCentreBox initialState)))
       = (3 / maxDimension (boxSize offCentreBox)) * 2
   \<and> modelPosition (handleScaleChange 2 (snd (normalizeModel 3 offCentreBox initialState)))
       \<noteq> (- vx (boxCenter offCentreBox)
              * modelScale (handleScaleChange 2 (snd (normalizeModel 3 offCentreBox initialState))),
            - vy (boxCenter offCentreBox)
              * modelScale (handleScaleChange 2 (snd (normalizeModel 3 offCentreBox initialState))),
            - vz (boxCenter offCentreBox)
              * modelScale (handleScaleChange 2 (snd (normalizeModel 3 offCentreBox initialState))))
   \<and> sceneScale (fitScene True 2 offCentreBox \<lparr>scenePosition = Vector3 0 0 0, sceneScale = 1\<rparr>)
       = (3.5 / maxDimension (boxSize offCentreBox)) * 2
   \<and> scenePosition (fitScene True 2 offCentreBox \<lparr>scenePosition = Vector3 0 0 0, sceneScale = 1\<rparr>)
       \<noteq> Vector3
           (- vx (boxCenter offCentreBox) * sceneScale
              (fitScene True 2 offCentreBox \<lparr>scenePosition = Vector3 0 0 0, sceneScale = 1\<rparr>))
           (- vy (boxCenter offCentreBox) * sceneScale
              (fitScene True 2 offCentreBox \<lparr>scenePosition = Vector3 0 0 0, sceneScale = 1\<rparr>))
           (- vz (boxCenter offCentreBox) * sceneScale
              (fitScene True 2 offCentreBox \<lparr>scenePosition = Vector3 0 0 0, sceneScale = 1\<rparr>))"
  by (simp add: offCentreBox_def normalizeModel_def handleScaleChange_def maxDimension_def
      initialState_def fitScene_def Let_def)

text \<open>
  C1, amended. For a box whose largest extent is positive and a positive target size,
  \<open>normalizeModel\<close> takes no multiplier: it returns the scale \<open>targetSize / maxDim\<close>,
  strictly positive, and the translation \<open>-center * scale\<close>, and stores both.
  \<open>handleScaleChange\<close> then applies the multiplier to the scale only: the displayed scale
  is \<open>(targetSize / maxDim) * multiplier\<close>, strictly positive for a positive multiplier,
  and the translation stays \<open>-center * (targetSize / maxDim)\<close>. The fit of
  \<open>AnimatedModel\<close> sets the scene's scale to \<open>(3.5 / maxDim) * multiplier\<close>.
\<close>

theorem normalizeModel_scale_translation:
  assumes "maxDimension (boxSize box) > 0" and "targetSize > 0"
    and "k = targetSize / maxDimension (boxSize box)"
    and "s' = snd (normalizeModel targetSize box s)"
  shows "nd_normalizedScale (fst (normalizeModel targetSize box s)) = k
     \<and> k > 0
     \<and> centeredPosition (fst (normalizeModel targetSize box s))
         = (- vx (boxCenter box) * k, - vy (boxCenter box) * k, - vz (boxCenter box) * k)
     \<and> normalizedScale s' = k \<and> modelScale s' = k
     \<and> modelPosition s'
         = (- vx (boxCenter box) * k, - vy (boxCenter box) * k, - vz (boxCenter box) * k)
     \<and> modelScale (handleScaleChange multiplier s') = k * multiplier
     \<and> (multiplier > 0 \<longrightarrow> modelScale (handleScaleChange multiplier s') > 0)
     \<and> modelPosition (handleScaleChange multiplier s')
         = (- vx (boxCenter box) * k, - vy (boxCenter box) * k, - vz (boxCenter box) * k)
     \<and> sceneScale (fitScene True multiplier box tr)
         = (3.5 / maxDimension (boxSize box)) * multiplier"
  using assms
  by (simp add: normalizeModel_def handleScaleChange_def fitScene_def Let_def)

theorem normalizeModel_scale_translation_witness:
  "maxDimension (boxSize offCentreBox) > 0 \<and> (3::real) > 0
   \<and> nd_normalizedScale (fst (normalizeModel 3 offCentreBox initialState)) = 1 / 2
   \<and> centeredPosition (fst (normalizeModel 3 offCentreBox initialState)) = (- 1 / 2, - 1, - 3 / 2)
   \<and> modelScale (handleScaleChange 2 (snd (normalizeModel 3 offCentreBox initialState))) = 1
   \<and> modelPosition (handleScaleChange 2 (snd (normalizeModel 3 offCentreBox initialState)))
       = (- 1 / 2, - 1, - 3 / 2)"
  using normalizeModel_scale_translation[of offCentreBox 3 "1 / 2"
      "snd (normalizeModel 3 offCentreBox initialState)" initialState 2]
  by (simp add: offCentreBox_def maxDimension_def)

text \<open>
  C3, as stated, fails. The box of the single point \<open>(1, 2, 3)\<close> has all-zero extents,
  and its translation is not the origin.
\<close>

theorem normalize_degenerate_counterexample:
  "boxSize pointBox = Vector3 0 0 0
   \<and> maxDimension (boxSize pointBox) = 0
   \<and> modelPosition (snd (normalizeModel 3 pointBox initialState)) \<noteq> (0, 0, 0)
   \<and> centeredPosition (fst (normalizeModel 3 pointBox initialState)) \<noteq> (0, 0, 0)"
  by (simp add: pointBox_def normalizeModel_def maxDimension_def initialState_def Let_def)

text \<open>
  C3, amended. For a box whose largest extent is zero, \<open>normalizeModel\<close> divides nothing:
  it returns the scale 1, so that the displayed scale after \<open>handleScaleChange\<close> is the
  multiplier unchanged, and the translation is the negated centre of the box, which is
  the origin when the centre is. The fit of \<open>AnimatedModel\<close> leaves the scene's scale as
  it was.
\<close>

theorem normalizeModel_degenerate:
  assumes "maxDimension (boxSize box) = 0"
    and "s' = snd (normalizeModel targetSize box s)"
  shows "nd_normalizedScale (fst (normalizeModel targetSize box s)) = 1
     \<and> normalizedScale s' = 1
     \<and> modelScale (handleScaleChange multiplier s') = multiplier
     \<and> centeredPosition (fst (normalizeModel targetSize box s))
         = (- vx (boxCenter box), - vy (boxCenter box), - vz (boxCenter box))
     \<and> modelPosition (handleScaleChange multiplier s')
         = (- vx (boxCenter box), - vy (boxCenter box), - vz (boxCenter box))
     \<and> (boxCenter box = Vector3 0 0 0 \<longrightarrow>
          modelPosition (handleScaleChange multiplier s') = (0, 0, 0))
     \<and> sceneScale (fitScene enableBounds multiplier box tr) = sceneScale tr"
  using assms
  by (simp add: normalizeModel_def handleScaleChange_def fitScene_def Let_def)

theorem normalizeModel_degenerate_witness:
  "maxDimension (boxSize pointBox) = 0
   \<and> nd_normalizedScale (fst (normalizeModel 3 pointBox initialState)) = 1
   \<and> modelScale (handleScaleChange 2 (snd (normalizeModel 3 pointBox initialState))) = 2
   \<and> modelPosition (handleScaleChange 2 (snd (normalizeModel 3 pointBox initialState)))
       = (- 1, - 2, - 3)
   \<and> maxDimension (boxSize \<lparr>boxCenter = Vector3 0 0 0, boxSize = Vector3 0 0 0\<rparr>) = 0
   \<and> modelPosition (handleScaleChange 2
        (snd (normalizeModel 3 \<lparr>boxCenter = Vector3 0 0 0, boxSize = Vector3 0 0 0\<rparr>
           initialState))) = (0, 0, 0)"
  using normalizeModel_degenerate[of pointBox
      "snd (normalizeModel 3 pointBox initialState)" 3 initialState 2]
    normalizeModel_degenerate[of "\<lparr>boxCenter = Vector3 0 0 0, boxSize = Vector3 0 0 0\<rparr>"
      "snd (normalizeModel 3 \<lparr>boxCenter = Vector3 0 0 0, boxSize = Vector3 0 0 0\<rparr> initialState)"
      3 initialState 2]
  by (simp add: pointBox_def maxDimension_def)

section \<open>Normalising the live scene again\<close>











section \<open>Default animation on load\<close>

text \<open>
  When auto-play is off or no named clip is left, \<open>handleModelLoad\<close> writes neither the
  selection nor the play flag.
\<close>

lemma handleModelLoad_no_selection:
  assumes "\<not> declaredAutoPlay productAnims
           \<or> animNames (case animations g of None \<Rightarrow> [] | Some cl \<Rightarrow> cl) = []"
  shows "currentAnimation (handleModelLoad targetSize productAnims g box cplx s) = currentAnimation s
     \<and> playAnimations (handleModelLoad targetSize productAnims g box cplx s) = playAnimations s"
  using assms
  by (auto simp: handleModelLoad_def normalizeModel_def Let_def
      split: option.splits list.splits)

text \<open>
  C2. In a viewer that has no clip selected and is not playing (its state after
  mounting), loading a model whose clip names, in loader order, are \<open>names\<close> leaves the
  selection empty and playback off when auto-play is false or \<open>names\<close> is empty;
  otherwise it starts playback and selects the declared default when that is non-empty
  and among \<open>names\<close>, else the first of \<open>names\<close>.
\<close>

theorem handleModelLoad_selection:
  assumes "currentAnimation s = None" and "\<not> playAnimations s"
    and "names = animNames (case animations g of None \<Rightarrow> [] | Some cl \<Rightarrow> cl)"
    and "s' = handleModelLoad targetSize productAnims g box cplx s"
  shows "availableAnimations s' = names
     \<and> (\<not> declaredAutoPlay productAnims \<or> names = [] \<longrightarrow>
          currentAnimation s' = None \<and> \<not> playAnimations s')
     \<and> (declaredAutoPlay productAnims \<and> names \<noteq> [] \<longrightarrow>
          playAnimations s'
          \<and> currentAnimation s' =
              (if \<exists>d. declaredDefault productAnims = Some d \<and> d \<noteq> [] \<and> d \<in> set names
               then declaredDefault productAnims else Some (hd names)))"
proof -
  have avail: "availableAnimations s' = names"
    using assms(3,4)
    by (auto simp: handleModelLoad_def normalizeModel_def Let_def animNames_def
        split: option.splits list.splits)
  have none: "currentAnimation s' = None \<and> \<not> playAnimations s'"
    if "\<not> declaredAutoPlay productAnims \<or> names = []"
    using that handleModelLoad_no_selection[of productAnims g targetSize box cplx s] assms
    by simp
  have some: "playAnimations s'
     \<and> currentAnimation s' =
         (if \<exists>d. declaredDefault productAnims = Some d \<and> d \<noteq> [] \<and> d \<in> set names
          then declaredDefault productAnims else Some (hd names))"
    if h: "declaredAutoPlay productAnims \<and> names \<noteq> []"
  proof -
    let ?clips = "case animations g of None \<Rightarrow> [] | Some cl \<Rightarrow> cl"
    from h have clips: "length ?clips > 0"
      using assms(3) by (auto simp: animNames_def)
    have names: "animNames ?clips = names"
      using assms(3) by simp
    show ?thesis
    proof (cases "\<exists>d. declaredDefault productAnims = Some d \<and> d \<noteq> [] \<and> d \<in> set names")
      case True
      then obtain d where d: "declaredDefault productAnims = Some d" "d \<noteq> []" "d \<in> set names"
        by blast
      have "s' = (handleModelLoad targetSize productAnims g box cplx s)"
        by (rule assms(4))
      then have "playAnimations s' \<and> currentAnimation s' = Some d"
        using h clips d
        by (simp add: handleModelLoad_def normalizeModel_def Let_def names)
      then show ?thesis using True d by simp
    next
      case False
      then have nd: "(case declaredDefault productAnims of None \<Rightarrow> False
                     | Some d \<Rightarrow> d \<noteq> [] \<and> d \<in> set names) = False"
        by (auto split: option.splits)
      obtain n ns where cons: "names = n # ns"
        using h by (cases names) auto
      have "playAnimations s' \<and> currentAnimation s' = Some n"
        using h clips
        by (simp add: assms(4) handleModelLoad_def normalizeModel_def Let_def names nd)
           (simp add: cons)
      moreover have "hd names = n" using cons by simp
      ultimately show ?thesis using False by auto
    qed
  qed
  show ?thesis
    using avail none some by blast
qed

theorem handleModelLoad_selection_witness:
  "currentAnimation initialState = None \<and> \<not> playAnimations initialState
   \<and> currentAnimation (handleModelLoad 3 (declared ''idle'' True) (modelOfClips [])
        offCentreBox (analyzeModelComplexity None) initialState) = None
   \<and> currentAnimation (handleModelLoad 3 (declared ''idle'' True)
        (modelOfClips [''walk'', ''idle'']) offCentreBox (analyzeModelComplexity None)
        initialState) = Some ''idle''
   \<and> currentAnimation (handleModelLoad 3 (declared ''idle'' True)
        (modelOfClips [''walk'', ''run'']) offCentreBox (analyzeModelComplexity None)
        initialState) = Some ''walk''
   \<and> currentAnimation (handleModelLoad 3 (declared ''idle'' False)
        (modelOfClips [''walk'', ''run'']) offCentreBox (analyzeModelComplexity None)
        initialState) = None
   \<and> \<not> playAnimations (handleModelLoad 3 (declared ''idle'' False)
        (modelOfClips [''walk'', ''run'']) offCentreBox (analyzeModelComplexity None)
        initialState)"
  using
    handleModelLoad_selection[of initialState "[]" "modelOfClips []" _ 3
      "declared ''idle'' True" offCentreBox "analyzeModelComplexity None", OF _ _ _ refl]
    handleModelLoad_selection[of initialState "[''walk'', ''idle'']"
      "modelOfClips [''walk'', ''idle'']" _ 3
      "declared ''idle'' True" offCentreBox "analyzeModelComplexity None", OF _ _ _ refl]
    handleModelLoad_selection[of initialState "[''walk'', ''run'']"
      "modelOfClips [''walk'', ''run'']" _ 3
      "declared ''idle'' True" offCentreBox "analyzeModelComplexity None", OF _ _ _ refl]
    handleModelLoad_selection[of initialState "[''walk'', ''run'']"
      "modelOfClips [''walk'', ''run'']" _ 3
      "declared ''idle'' False" offCentreBox "analyzeModelComplexity None", OF _ _ _ refl]
  by (simp add: initialState_def modelOfClips_def declared_def animNames_def
      declaredAutoPlay_def declaredDefault_def)

section \<open>Cycling through the clips\<close>

lemma indexOf_absent: "v \<notin> set xs \<Longrightarrow> indexOf xs v = - 1"
  by (induction xs) (auto simp: Let_def)

lemma indexOf_first:
  "i < length xs \<Longrightarrow> xs ! i = v \<Longrightarrow> v \<notin> set (take i xs) \<Longrightarrow> indexOf xs v = int i"
proof (induction xs arbitrary: i)
  case Nil
  then show ?case by simp
next
  case (Cons a xs)
  show ?case
  proof (cases i)
    case 0
    with Cons.prems show ?thesis by simp
  next
    case (Suc j)
    with Cons.prems have "a \<noteq> v" and "indexOf xs v = int j"
      using Cons.IH[of j] by auto
    with Suc show ?thesis by (simp add: Let_def)
  qed
qed

lemma indexOf_selection:
  assumes "i < length anims" and "anims ! i \<notin> set (take i anims)"
  shows "indexOf (map Some anims) (Some (anims ! i)) = int i"
proof -
  have "Some (anims ! i) \<notin> set (take i (map Some anims))"
    using assms(2) by (auto simp: take_map)
  then show ?thesis
    using assms(1) by (intro indexOf_first) simp_all
qed

lemma indexOf_unselected:
  "sel \<notin> Some ` set anims \<Longrightarrow> indexOf (map Some anims) sel = - 1"
  by (rule indexOf_absent) simp

text \<open>
  C4. With an empty clip list, next and previous leave the selection as it is. With the
  selection at index \<open>i\<close> of the list (the first index holding that name, which is how
  the handlers find it), next selects the clip at \<open>i + 1\<close>, or at 0 past the end, and
  previous the clip at \<open>i - 1\<close>, or the last one before the start. With a selection
  that is not in a non-empty list, next selects the first clip and previous the last.
\<close>

theorem cycle_next_previous:
  "(anims = [] \<longrightarrow> handleNext anims sel = sel \<and> handlePrevious anims sel = sel)
   \<and> (\<forall>i. i < length anims \<and> sel = Some (anims ! i) \<and> anims ! i \<notin> set (take i anims) \<longrightarrow>
         handleNext anims sel = Some (anims ! (if i + 1 = length anims then 0 else i + 1))
         \<and> handlePrevious anims sel = Some (anims ! (if i = 0 then length anims - 1 else i - 1)))
   \<and> (anims \<noteq> [] \<and> sel \<notin> Some ` set anims \<longrightarrow>
         handleNext anims sel = Some (anims ! 0)
         \<and> handlePrevious anims sel = Some (anims ! (length anims - 1)))"
proof (intro conjI allI impI)
  fix i
  assume h: "i < length anims \<and> sel = Some (anims ! i) \<and> anims ! i \<notin> set (take i anims)"
  then have idx: "indexOf (map Some anims) (Some (anims ! i)) = int i"
    using indexOf_selection[of i anims] by simp
  from h have ne: "anims \<noteq> []" and sel: "sel = Some (anims ! i)" and i: "i < length anims"
    by auto
  show "handleNext anims sel = Some (anims ! (if i + 1 = length anims then 0 else i + 1))"
    using ne i by (auto simp: sel handleNext_def Let_def idx elemAt_def nat_add_distrib)
  show "handlePrevious anims sel = Some (anims ! (if i = 0 then length anims - 1 else i - 1))"
    using ne i by (auto simp: sel handlePrevious_def Let_def idx elemAt_def nat_diff_distrib')
next
  assume h: "anims \<noteq> [] \<and> sel \<notin> Some ` set anims"
  then have idx: "indexOf (map Some anims) sel = - 1"
    using indexOf_unselected by blast
  from h show "handleNext anims sel = Some (anims ! 0)"
    by (simp add: handleNext_def Let_def idx elemAt_def)
  from h show "handlePrevious anims sel = Some (anims ! (length anims - 1))"
    by (simp add: handlePrevious_def Let_def idx elemAt_def nat_diff_distrib')
qed (simp_all add: handleNext_def handlePrevious_def)

theorem cycle_next_previous_witness:
  "handleNext [''a'', ''b'', ''c''] (Some ''c'') = Some ''a''
   \<and> handlePrevious [''a'', ''b'', ''c''] (Some ''a'') = Some ''c''
   \<and> handleNext [''a'', ''b'', ''c''] (Some ''a'') = Some ''b''
   \<and> handlePrevious [''a'', ''b'', ''c''] (Some ''c'') = Some ''b''
   \<and> handleNext [] (Some ''a'') = Some ''a''
   \<and> handlePrevious [] None = None
   \<and> handleNext [''a'', ''b'', ''c''] None = Some ''a''
   \<and> handlePrevious [''a'', ''b'', ''c''] (Some ''x'') = Some ''c''"
  using cycle_next_previous[of "[''a'', ''b'', ''c'']" "Some ''c''", THEN conjunct2, THEN conjunct1, THEN spec, of 2]
    cycle_next_previous[of "[''a'', ''b'', ''c'']" "Some ''a''", THEN conjunct2, THEN conjunct1, THEN spec, of 0]
    cycle_next_previous[of "[]" "Some ''a''"]
    cycle_next_previous[of "[]" "None"]
    cycle_next_previous[of "[''a'', ''b'', ''c'']" "None"]
    cycle_next_previous[of "[''a'', ''b'', ''c'']" "Some ''x''"]
  by simp

section \<open>Playing a requested clip\<close>

lemma actionsOf_clip [simp]: "n \<in> set names \<Longrightarrow> actionsOf inherited names n = ClipAction"
  by (simp add: actionsOf_def)

lemma actionsOf_none [simp]:
  "n \<notin> set names \<Longrightarrow> \<not> inherited n \<Longrightarrow> actionsOf inherited names n = NoAction"
  by (simp add: actionsOf_def)

lemma actionsOf_inherited [simp]:
  "n \<notin> set names \<Longrightarrow> inherited n \<Longrightarrow> actionsOf inherited names n = InheritedValue"
  by (simp add: actionsOf_def)

lemma firstPlayable_find:
  assumes "\<forall>c \<in> set cs. c \<notin> set names \<longrightarrow> \<not> inherited c"
  shows "firstPlayable (actionsOf inherited names) (map Some cs) =
     List.find (\<lambda>c. c \<noteq> [] \<and> c \<in> set names) cs"
  using assms by (induction cs) (auto simp: playable_def actionsOf_def)

lemma inheritedName_examples:
  "\<not> inheritedName ''jump''" "\<not> inheritedName ''idle''" "\<not> inheritedName ''animation''"
  "\<not> inheritedName ''action''" "\<not> inheritedName ''default''" "\<not> inheritedName ''walk''"
  "\<not> inheritedName ''run''" "inheritedName ''toString''"
  by (simp_all add: inheritedName_def objectPrototypeNames_def)

text \<open>
  C5, as stated, fails. In a model with the clips \<open>walk\<close> and \<open>run\<close>, a request for
  \<open>jump\<close> keeps \<open>jump\<close> as the selection and plays \<open>walk\<close> in its place.
\<close>

theorem playback_fallback_counterexample:
  "''jump'' \<notin> set [''walk'', ''run'']
   \<and> currentAnimation (handleAnimationChange (Some ''jump'') initialState) = Some ''jump''
   \<and> playbackEffect (actionsOf inheritedName [''walk'', ''run'']) [''walk'', ''run'']
        (currentAnimation (handleAnimationChange (Some ''jump'') initialState))
        (playAnimations (handleAnimationChange (Some ''jump'') initialState))
       = Inr (Some ''walk'')"
  by (simp add: handleAnimationChange_def initialState_def truthy_def playbackEffect_def
      playable_def actionsOf_def inheritedName_examples elemAt_def Let_def)

lemma playbackEffect_present:
  assumes "req \<noteq> []" and "req \<in> set names"
  shows "playbackEffect (actionsOf inherited names) names (Some req) True = Inr (Some req)"
proof -
  have "names \<noteq> []" using assms(2) by auto
  moreover have "playable (actionsOf inherited names) (Some req)"
    using assms by (simp add: playable_def)
  moreover have "actionsOf inherited names req = ClipAction"
    using assms(2) by simp
  ultimately show ?thesis
    by (simp add: playbackEffect_def Let_def)
qed

lemma firstPlayable_result:
  assumes "firstPlayable actions cs = Some n"
  shows "playable actions (Some n)"
  using assms by (induction cs) (auto split: if_splits)

lemma playbackEffect_absent:
  assumes "req \<notin> set names" and "\<not> inherited req" and "names \<noteq> []"
    and "\<not> inherited ''idle''" and "\<not> inherited ''animation''"
    and "\<not> inherited ''action''" and "\<not> inherited ''default''"
  shows "playbackEffect (actionsOf inherited names) names (Some req) True =
     Inr (List.find (\<lambda>c. c \<noteq> [] \<and> c \<in> set names)
            [''idle'', ''animation'', ''action'', ''default'', hd names])"
proof -
  let ?A = "actionsOf inherited names"
  let ?cs = "[''idle'', ''animation'', ''action'', ''default'', hd names]"
  define found where "found = firstPlayable ?A (map Some ?cs)"
  have first: "elemAt names 0 = Some (hd names)"
    using assms(3) by (cases names) (simp_all add: elemAt_def)
  have "\<forall>c \<in> set ?cs. c \<notin> set names \<longrightarrow> \<not> inherited c"
    using assms(3-7) by auto
  then have eq: "found = List.find (\<lambda>c. c \<noteq> [] \<and> c \<in> set names) ?cs"
    unfolding found_def by (rule firstPlayable_find)
  have notreq: "\<not> playable ?A (Some req)"
    using assms(1,2) by (simp add: playable_def)
  have common: "[Some ''idle'', Some ''animation'', Some ''action'', Some ''default'',
                 elemAt names 0] = map Some ?cs"
    by (simp add: first)
  have res: "playbackEffect ?A names (Some req) True =
        (if playable ?A found then
           (case found of None \<Rightarrow> Inr None
            | Some n \<Rightarrow> (case ?A n of ClipAction \<Rightarrow> Inr (Some n)
                           | InheritedValue \<Rightarrow> Inl TypeError | NoAction \<Rightarrow> Inr None))
         else Inr None)"
    unfolding playbackEffect_def Let_def common found_def
    using assms(3) notreq by simp
  show ?thesis
  proof (cases found)
    case None
    then show ?thesis
      using res eq by (simp add: playable_def)
  next
    case (Some n)
    then have "playable ?A (Some n)"
      unfolding found_def by (rule firstPlayable_result)
    moreover have "n \<in> set names"
      using Some eq by (auto dest: find_Some_iff[THEN iffD1] simp del: find.simps)
    ultimately show ?thesis
      using res eq Some by simp
  qed
qed

lemma playbackEffect_empty: "playbackEffect actions [] cur play = Inr None"
  by (simp add: playbackEffect_def)

text \<open>
  C5, amended. A request for a non-empty clip name selects that name and switches
  playback on, whatever the auto-play policy. If the name is among the clips, that clip
  is played. If it is not, and is not a property name that every object inherits
  either, and there are clips, the first of \<open>idle\<close>, \<open>animation\<close>, \<open>action\<close>, \<open>default\<close>
  and the first clip's name that is a non-empty clip name is played in its place (so
  some clip plays when the first clip has a name); this is stated for platforms on which
  none of the four fixed names is an inherited property name. With no clips nothing is
  played.
\<close>

theorem playback_request:
  assumes "req \<noteq> []" and "s' = handleAnimationChange (Some req) s"
    and "result = playbackEffect (actionsOf inherited names) names
                    (currentAnimation s') (playAnimations s')"
  shows "playAnimations s' \<and> currentAnimation s' = Some req
     \<and> (req \<in> set names \<longrightarrow> result = Inr (Some req))
     \<and> (req \<notin> set names \<and> \<not> inherited req \<and> names \<noteq> []
          \<and> \<not> inherited ''idle'' \<and> \<not> inherited ''animation''
          \<and> \<not> inherited ''action'' \<and> \<not> inherited ''default'' \<longrightarrow>
          result = Inr (List.find (\<lambda>c. c \<noteq> [] \<and> c \<in> set names)
                     [''idle'', ''animation'', ''action'', ''default'', hd names])
          \<and> (hd names \<noteq> [] \<longrightarrow> result \<noteq> Inr None))
     \<and> (names = [] \<longrightarrow> result = Inr None)"
proof -
  have st: "playAnimations s'" "currentAnimation s' = Some req"
    using assms(1,2) by (simp_all add: handleAnimationChange_def truthy_def Let_def)
  then have result: "result = playbackEffect (actionsOf inherited names) names (Some req) True"
    using assms(3) by simp
  have present: "req \<in> set names \<longrightarrow> result = Inr (Some req)"
    unfolding result using playbackEffect_present[OF assms(1)] by blast
  have absent: "req \<notin> set names \<and> \<not> inherited req \<and> names \<noteq> []
          \<and> \<not> inherited ''idle'' \<and> \<not> inherited ''animation''
          \<and> \<not> inherited ''action'' \<and> \<not> inherited ''default'' \<longrightarrow>
          result = Inr (List.find (\<lambda>c. c \<noteq> [] \<and> c \<in> set names)
                     [''idle'', ''animation'', ''action'', ''default'', hd names])
          \<and> (hd names \<noteq> [] \<longrightarrow> result \<noteq> Inr None)"
  proof (intro impI, elim conjE)
    assume h: "req \<notin> set names" "\<not> inherited req" "names \<noteq> []"
      "\<not> inherited ''idle''" "\<not> inherited ''animation''"
      "\<not> inherited ''action''" "\<not> inherited ''default''"
    have r: "result = Inr (List.find (\<lambda>c. c \<noteq> [] \<and> c \<in> set names)
                     [''idle'', ''animation'', ''action'', ''default'', hd names])"
      unfolding result by (rule playbackEffect_absent[OF h])
    have "List.find (\<lambda>c. c \<noteq> [] \<and> c \<in> set names)
            [''idle'', ''animation'', ''action'', ''default'', hd names] \<noteq> None"
      if "hd names \<noteq> []"
    proof -
      have "hd names \<in> set names" using h(3) by simp
      then show ?thesis using that by (auto simp: find_None_iff simp del: find.simps)
    qed
    then show "result = Inr (List.find (\<lambda>c. c \<noteq> [] \<and> c \<in> set names)
                     [''idle'', ''animation'', ''action'', ''default'', hd names])
          \<and> (hd names \<noteq> [] \<longrightarrow> result \<noteq> Inr None)"
      using r by simp
  qed
  have empty: "names = [] \<longrightarrow> result = Inr None"
    unfolding result by (simp add: playbackEffect_empty)
  show ?thesis
    using st present absent empty by (intro conjI)
qed

theorem playback_request_witness:
  "playbackEffect (actionsOf inheritedName [''walk'', ''run'']) [''walk'', ''run'']
      (currentAnimation (handleAnimationChange (Some ''run'') initialState))
      (playAnimations (handleAnimationChange (Some ''run'') initialState)) = Inr (Some ''run'')
   \<and> playbackEffect (actionsOf inheritedName [''walk'', ''idle'']) [''walk'', ''idle'']
      (currentAnimation (handleAnimationChange (Some ''jump'') initialState))
      (playAnimations (handleAnimationChange (Some ''jump'') initialState)) = Inr (Some ''idle'')
   \<and> playbackEffect (actionsOf inheritedName [''walk'', ''run'']) [''walk'', ''run'']
      (currentAnimation (handleAnimationChange (Some ''jump'') initialState))
      (playAnimations (handleAnimationChange (Some ''jump'') initialState)) = Inr (Some ''walk'')
   \<and> playbackEffect (actionsOf inheritedName []) []
      (currentAnimation (handleAnimationChange (Some ''jump'') initialState))
      (playAnimations (handleAnimationChange (Some ''jump'') initialState)) = Inr None"
  using
    playback_request[of "''run''" _ initialState _ inheritedName "[''walk'', ''run'']",
      OF _ refl refl]
    playback_request[of "''jump''" _ initialState _ inheritedName "[''walk'', ''idle'']",
      OF _ refl refl]
    playback_request[of "''jump''" _ initialState _ inheritedName "[''walk'', ''run'']",
      OF _ refl refl]
    playback_request[of "''jump''" _ initialState _ inheritedName "[]", OF _ refl refl]
  by (simp add: handleAnimationChange_def initialState_def truthy_def playbackEffect_def
      playable_def actionsOf_def inheritedName_examples elemAt_def Let_def)

text \<open>
  The case the statement above leaves out: a requested name that is no clip but a
  property every object inherits passes the test \<open>actions[currentAnimation]\<close>, and the
  effect throws at \<open>action.reset()\<close> without playing anything.
\<close>

lemma playbackEffect_inherited_request:
  assumes "names \<noteq> []" and "req \<noteq> []" and "req \<notin> set names" and "inherited req"
  shows "playbackEffect (actionsOf inherited names) names (Some req) True = Inl TypeError"
  using assms by (simp add: playbackEffect_def playable_def Let_def)

lemma toString_throws:
  "playbackEffect (actionsOf inheritedName [''walk'', ''run'']) [''walk'', ''run'']
      (Some ''toString'') True = Inl TypeError"
  by (simp add: playbackEffect_def playable_def actionsOf_def inheritedName_examples Let_def)

end
